theory Spec2Isabelle
  imports Main
begin

section \<open>Data model (src/types.ts)\<close>

text \<open>
  The interfaces of \<^verbatim>\<open>types.ts\<close> become records. Several interfaces have a field
  called \<^verbatim>\<open>title\<close>, \<^verbatim>\<open>description\<close> or \<^verbatim>\<open>id\<close>; the record
  fields carry the interface name as a prefix where the plain name would clash
  (\<^verbatim>\<open>Lesson.title\<close> is \<open>lesson_title\<close>, \<^verbatim>\<open>Message.id\<close> is \<open>msg_id\<close>, and so on).
  A JavaScript string is a \<open>string\<close>; each \<open>char\<close> stands for one code unit below 256.
  A JavaScript \<^verbatim>\<open>number\<close> used as an array index is an \<open>int\<close>. A field of type
  \<^verbatim>\<open>T | null\<close> and the optional field \<^verbatim>\<open>isStreaming?\<close> are options.
\<close>

record Lesson =
  lesson_title :: string
  lesson_description :: string

record Module =
  module_title :: string
  lessons :: "Lesson list"

record Course =
  course_id :: string
  topic :: string
  course_title :: string
  course_description :: string
  modules :: "Module list"

datatype Role = User | Model

record Message =
  msg_id :: string
  role :: Role
  content :: string
  msg_isStreaming :: "bool option"

record QuizQuestion =
  question :: string
  options :: "string list"
  correctAnswerIndex :: int
  explanation :: string

record Quiz =
  quiz_title :: string
  questions :: "QuizQuestion list"

datatype ViewState = VLanding | VCourse | VQuiz

record AppState =
  currentView :: ViewState
  courses :: "Course list"
  activeCourseId :: "string option"
  activeModuleIndex :: "int option"
  activeLessonIndex :: "int option"
  chatHistory :: "Message list"
  activeQuiz :: "Quiz option"
  isLoading :: bool

section \<open>The component and its environment (src/App.tsx)\<close>

text \<open>
  A value thrown in the source is an \<open>error\<close>: the \<^verbatim>\<open>TypeError\<close> of reading a
  property of \<^verbatim>\<open>undefined\<close>, or whatever a service call rejects with.
\<close>

datatype error = TypeError | ServiceError string

text \<open>
  The three functions of \<^verbatim>\<open>services/geminiService\<close> are external collaborators.
  A call is recorded with its arguments; what the call answers is an argument of the
  handler that awaits it.
\<close>

datatype ApiCall =
    GenerateCourseCurriculum string
  | StreamChatResponse "(Role \<times> string) list" string
  | GenerateQuizForModule string string

text \<open>What the component does to the outside, in the order it does it.\<close>

datatype Effect =
    Call ApiCall
  | ConsoleError error
  | Alert string
  | Uncaught error

text \<open>
  The three \<^verbatim>\<open>useState\<close> cells of \<^verbatim>\<open>App\<close>, and the trace of effects so far.
  Every \<^verbatim>\<open>setState\<close> of the source is a functional update \<^verbatim>\<open>prev => ...\<close>, so the
  updates queued by one synchronous stretch of a handler compose in program order; the
  model applies each one where the source queues it.
\<close>

record World =
  state :: AppState
  topicInput :: string
  isStreaming :: bool
  effects :: "Effect list"

definition initialState :: AppState where
  "initialState =
     \<lparr>currentView = VLanding, courses = [], activeCourseId = None,
      activeModuleIndex = None, activeLessonIndex = None, chatHistory = [],
      activeQuiz = None, isLoading = False\<rparr>"

definition initialWorld :: World where
  "initialWorld =
     \<lparr>state = initialState, topicInput = [], isStreaming = False, effects = []\<rparr>"

definition setState :: "(AppState \<Rightarrow> AppState) \<Rightarrow> World \<Rightarrow> World" where
  "setState f w = w\<lparr>state := f (state w)\<rparr>"

definition emit :: "Effect \<Rightarrow> World \<Rightarrow> World" where
  "emit e w = w\<lparr>effects := effects w @ [e]\<rparr>"

subsection \<open>JavaScript primitives\<close>

text \<open>\<^verbatim>\<open>xs[i]\<close>: the element, or \<^verbatim>\<open>undefined\<close> (here \<open>None\<close>) outside the array.\<close>

definition js_index :: "'a list \<Rightarrow> int \<Rightarrow> 'a option" where
  "js_index xs i = (if 0 \<le> i \<and> i < int (length xs) then Some (xs ! nat i) else None)"

text \<open>
  The white space that \<^verbatim>\<open>String.prototype.trim\<close> strips, among the code units
  below 256: TAB, LF, VT, FF, CR, SPACE and NBSP.
\<close>

definition isWhiteSpace :: "char \<Rightarrow> bool" where
  "isWhiteSpace c = (of_char c \<in> {9, 10, 11, 12, 13, 32, 160 :: nat})"

definition trim :: "string \<Rightarrow> string" where
  "trim s = rev (dropWhile isWhiteSpace (rev (dropWhile isWhiteSpace s)))"

definition nl :: string where
  "nl = [CHR 0x0A]"

definition dq :: string where
  "dq = [CHR 0x22]"

definition apos :: string where
  "apos = [CHR 0x27]"

subsection \<open>Values derived on each render (lines 25-27)\<close>

definition activeCourse :: "AppState \<Rightarrow> Course option" where
  "activeCourse s =
     (case activeCourseId s of
        None \<Rightarrow> None
      | Some i \<Rightarrow> find (\<lambda>c. course_id c = i) (courses s))"

definition activeModule :: "AppState \<Rightarrow> Module option" where
  "activeModule s =
     (case activeCourse s of
        None \<Rightarrow> None
      | Some c \<Rightarrow>
          (case activeModuleIndex s of
             None \<Rightarrow> None
           | Some i \<Rightarrow> js_index (modules c) i))"

definition activeLesson :: "AppState \<Rightarrow> Lesson option" where
  "activeLesson s =
     (case activeModule s of
        None \<Rightarrow> None
      | Some m \<Rightarrow>
          (case activeLessonIndex s of
             None \<Rightarrow> None
           | Some i \<Rightarrow> js_index (lessons m) i))"

subsection \<open>handleGenerateCurriculum (lines 29-60)\<close>

text \<open>
  The greeting reads \<^verbatim>\<open>course.modules[0].lessons[0]\<close>; either index may give
  \<^verbatim>\<open>undefined\<close>, and the property read that follows then throws.
\<close>

definition greetingContent :: "Course \<Rightarrow> Lesson \<Rightarrow> string" where
  "greetingContent c l =
     ''Welcome to **'' @ course_title c @ ''**! I'' @ apos @ ''m your AI tutor. We'' @ apos
       @ ''ll start with **'' @ lesson_title l @ ''**. '' @ nl @ nl
       @ lesson_description l @ nl @ nl @ ''Ask me anything to begin!''"

definition greeting :: "Course \<Rightarrow> string \<Rightarrow> error + Message" where
  "greeting c gid =
     (case js_index (modules c) 0 of
        None \<Rightarrow> Inl TypeError
      | Some m \<Rightarrow>
          (case js_index (lessons m) 0 of
             None \<Rightarrow> Inl TypeError
           | Some l \<Rightarrow>
               Inr \<lparr>msg_id = gid, role = Model, content = greetingContent c l,
                    msg_isStreaming = None\<rparr>))"

text \<open>Line 33, followed by the call of line 35.\<close>

definition handleGenerateCurriculum_begin :: "World \<Rightarrow> World" where
  "handleGenerateCurriculum_begin w =
     emit (Call (GenerateCourseCurriculum (topicInput w)))
       (setState (\<lambda>prev. prev\<lparr>isLoading := True\<rparr>) w)"

text \<open>The \<^verbatim>\<open>catch\<close> block, lines 55-59.\<close>

definition handleGenerateCurriculum_catch :: "error \<Rightarrow> World \<Rightarrow> World" where
  "handleGenerateCurriculum_catch e w =
     setState (\<lambda>prev. prev\<lparr>isLoading := False\<rparr>)
       (emit (Alert ''Failed to generate curriculum. Please try again.'')
          (emit (ConsoleError e) w))"

text \<open>The rest of the \<^verbatim>\<open>try\<close> block once the service has answered, lines 36-53.\<close>

definition handleGenerateCurriculum_resolved :: "Course \<Rightarrow> string \<Rightarrow> World \<Rightarrow> World" where
  "handleGenerateCurriculum_resolved c gid w =
     (let w1 = setState (\<lambda>prev. prev\<lparr>courses := courses prev @ [c],
                                        activeCourseId := Some (course_id c),
                                        currentView := VCourse,
                                        activeModuleIndex := Some 0,
                                        activeLessonIndex := Some 0,
                                        chatHistory := [],
                                        isLoading := False\<rparr>) w
      in case greeting c gid of
           Inl e \<Rightarrow> handleGenerateCurriculum_catch e w1
         | Inr g \<Rightarrow> setState (\<lambda>prev. prev\<lparr>chatHistory := [g]\<rparr>) w1)"

text \<open>
  A whole run: \<open>answer\<close> is what \<^verbatim>\<open>generateCourseCurriculum\<close> does when awaited
  (\<open>Inl\<close>: it throws), \<open>gid\<close> is the value of \<^verbatim>\<open>crypto.randomUUID()\<close>.
  \<^verbatim>\<open>e.preventDefault()\<close> acts on the DOM event only and is left out.
\<close>

definition handleGenerateCurriculum :: "error + Course \<Rightarrow> string \<Rightarrow> World \<Rightarrow> World" where
  "handleGenerateCurriculum answer gid w =
     (if trim (topicInput w) = [] then w
      else
        (case answer of
           Inr c \<Rightarrow> handleGenerateCurriculum_resolved c gid (handleGenerateCurriculum_begin w)
         | Inl e \<Rightarrow> handleGenerateCurriculum_catch e (handleGenerateCurriculum_begin w)))"

subsection \<open>handleSelectLesson (lines 62-85)\<close>

definition contextMsgContent :: "Module \<Rightarrow> Lesson \<Rightarrow> string" where
  "contextMsgContent m l =
     ''Moving on to **'' @ module_title m @ '': '' @ lesson_title l @ ''**.'' @ nl @ nl
       @ lesson_description l @ nl @ nl @ ''Ready?''"

text \<open>
  Nothing catches here: a missing module throws at line 66, before any update; a missing
  lesson throws at line 82, after the update of lines 68-76 has been queued.
\<close>

definition handleSelectLesson :: "int \<Rightarrow> int \<Rightarrow> string \<Rightarrow> World \<Rightarrow> World" where
  "handleSelectLesson moduleIndex lessonIndex cid w =
     (case activeCourse (state w) of
        None \<Rightarrow> w
      | Some c \<Rightarrow>
          (case js_index (modules c) moduleIndex of
             None \<Rightarrow> emit (Uncaught TypeError) w
           | Some m \<Rightarrow>
               (let w1 = setState (\<lambda>prev. prev\<lparr>activeModuleIndex := Some moduleIndex,
                                                  activeLessonIndex := Some lessonIndex\<rparr>) w
                in case js_index (lessons m) lessonIndex of
                     None \<Rightarrow> emit (Uncaught TypeError) w1
                   | Some l \<Rightarrow>
                       setState (\<lambda>prev. prev\<lparr>chatHistory := chatHistory prev @
                           [\<lparr>msg_id = cid, role = Model, content = contextMsgContent m l,
                             msg_isStreaming = None\<rparr>]\<rparr>) w1)))"

subsection \<open>handleSendMessage (lines 87-140)\<close>

definition contextAwarePrompt :: "Course \<Rightarrow> Module \<Rightarrow> Lesson \<Rightarrow> string \<Rightarrow> string" where
  "contextAwarePrompt c m l text =
     ''[Current Context: Course '' @ dq @ course_title c @ dq @ '', Module '' @ dq
       @ module_title m @ dq @ '', Lesson '' @ dq @ lesson_title l @ dq @ '']'' @ nl
       @ ''User Question: '' @ text"

text \<open>
  Lines 90-118, up to the call of \<^verbatim>\<open>streamChatResponse\<close>. The history handed to the
  service is the one of the render the handler closes over: the chat before this message.
\<close>

definition handleSendMessage_begin ::
  "Course \<Rightarrow> Module \<Rightarrow> Lesson \<Rightarrow> string \<Rightarrow> string \<Rightarrow> string \<Rightarrow> World \<Rightarrow> World" where
  "handleSendMessage_begin c m l text uid modelMsgId w =
     (let userMsg = \<lparr>msg_id = uid, role = User, content = text, msg_isStreaming = None\<rparr>;
          w1 = setState (\<lambda>prev. prev\<lparr>chatHistory := chatHistory prev @ [userMsg]\<rparr>) w;
          w2 = w1\<lparr>isStreaming := True\<rparr>;
          initialModelMsg = \<lparr>msg_id = modelMsgId, role = Model, content = [],
                             msg_isStreaming = Some True\<rparr>;
          w3 = setState (\<lambda>prev. prev\<lparr>chatHistory := chatHistory prev @ [initialModelMsg]\<rparr>) w2
      in emit (Call (StreamChatResponse
                       (map (\<lambda>msg. (role msg, content msg)) (chatHistory (state w)))
                       (contextAwarePrompt c m l text))) w3)"

text \<open>
  The callback of lines 119-127, on one chunk. \<open>fullResponse\<close> is the handler's local
  variable, threaded through together with the component.
\<close>

definition onChunk :: "string \<Rightarrow> string \<times> World \<Rightarrow> string \<Rightarrow> string \<times> World" where
  "onChunk modelMsgId fw chunk =
     (let fullResponse = fst fw @ chunk
      in (fullResponse,
          setState (\<lambda>prev. prev\<lparr>chatHistory :=
              map (\<lambda>msg. if msg_id msg = modelMsgId then msg\<lparr>content := fullResponse\<rparr> else msg)
                (chatHistory prev)\<rparr>) (snd fw)))"

text \<open>The callback on the chunks of a stream, in order, from \<^verbatim>\<open>fullResponse = ''\<close>.\<close>

definition streamChunks :: "string \<Rightarrow> string list \<Rightarrow> World \<Rightarrow> string \<times> World" where
  "streamChunks modelMsgId chunks w = foldl (onChunk modelMsgId) ([], w) chunks"

text \<open>
  The end of the stream: the \<^verbatim>\<open>catch\<close> block (lines 129-130) when the service threw,
  then the \<^verbatim>\<open>finally\<close> block (lines 131-139) in both cases.
\<close>

definition handleSendMessage_finally :: "string \<Rightarrow> error option \<Rightarrow> World \<Rightarrow> World" where
  "handleSendMessage_finally modelMsgId thrown w =
     (let w1 = (case thrown of None \<Rightarrow> w | Some err \<Rightarrow> emit (ConsoleError err) w);
          w2 = w1\<lparr>isStreaming := False\<rparr>
      in setState (\<lambda>prev. prev\<lparr>chatHistory :=
             map (\<lambda>msg. if msg_id msg = modelMsgId then msg\<lparr>msg_isStreaming := Some False\<rparr> else msg)
               (chatHistory prev)\<rparr>) w2)"

text \<open>
  A whole run. \<open>uid\<close> and \<open>modelMsgId\<close> are the two values of
  \<^verbatim>\<open>crypto.randomUUID()\<close>; the service delivers \<open>chunks\<close> to the callback and then
  returns (\<open>thrown = None\<close>) or throws.
\<close>

definition handleSendMessage ::
  "string \<Rightarrow> string \<Rightarrow> string \<Rightarrow> string list \<Rightarrow> error option \<Rightarrow> World \<Rightarrow> World" where
  "handleSendMessage text uid modelMsgId chunks thrown w =
     (case activeCourse (state w) of
        None \<Rightarrow> w
      | Some c \<Rightarrow>
          (case activeModule (state w) of
             None \<Rightarrow> w
           | Some m \<Rightarrow>
               (case activeLesson (state w) of
                  None \<Rightarrow> w
                | Some l \<Rightarrow>
                    handleSendMessage_finally modelMsgId thrown
                      (snd (streamChunks modelMsgId chunks
                         (handleSendMessage_begin c m l text uid modelMsgId w))))))"

subsection \<open>handleTakeQuiz (lines 142-159)\<close>

definition handleTakeQuiz_call :: "Module \<Rightarrow> Course \<Rightarrow> World \<Rightarrow> World" where
  "handleTakeQuiz_call m c w = emit (Call (GenerateQuizForModule (module_title m) (topic c))) w"

definition handleTakeQuiz_resolved :: "Quiz \<Rightarrow> World \<Rightarrow> World" where
  "handleTakeQuiz_resolved q w =
     setState (\<lambda>prev. prev\<lparr>activeQuiz := Some q, isLoading := False\<rparr>) w"

text \<open>The \<^verbatim>\<open>catch\<close> block, lines 154-158.\<close>

definition handleTakeQuiz_catch :: "error \<Rightarrow> World \<Rightarrow> World" where
  "handleTakeQuiz_catch e w =
     emit (Alert ''Could not generate quiz. Try again.'')
       (setState (\<lambda>prev. prev\<lparr>isLoading := False\<rparr>) (emit (ConsoleError e) w))"

text \<open>
  A whole run. A module index outside the course makes \<^verbatim>\<open>module.title\<close> throw inside
  the \<^verbatim>\<open>try\<close>, before the service is called.
\<close>

definition handleTakeQuiz :: "int \<Rightarrow> error + Quiz \<Rightarrow> World \<Rightarrow> World" where
  "handleTakeQuiz moduleIndex answer w =
     (case activeCourse (state w) of
        None \<Rightarrow> w
      | Some c \<Rightarrow>
          (let w1 = setState (\<lambda>prev. prev\<lparr>isLoading := True\<rparr>) w
           in case js_index (modules c) moduleIndex of
                None \<Rightarrow> handleTakeQuiz_catch TypeError w1
              | Some m \<Rightarrow>
                  (case answer of
                     Inr q \<Rightarrow> handleTakeQuiz_resolved q (handleTakeQuiz_call m c w1)
                   | Inl e \<Rightarrow> handleTakeQuiz_catch e (handleTakeQuiz_call m c w1))))"

subsection \<open>The inline handlers of the JSX (lines 163, 168, 200, 219)\<close>

definition onHomeClick :: "World \<Rightarrow> World" where
  "onHomeClick w = setState (\<lambda>prev. prev\<lparr>currentView := VLanding\<rparr>) w"

definition onClose :: "World \<Rightarrow> World" where
  "onClose w = setState (\<lambda>prev. prev\<lparr>activeQuiz := None\<rparr>) w"

definition setTopicInput :: "string \<Rightarrow> World \<Rightarrow> World" where
  "setTopicInput t w = w\<lparr>topicInput := t\<rparr>"

subsection \<open>Observations\<close>

text \<open>The alerts raised so far, oldest first.\<close>

definition alerts :: "World \<Rightarrow> string list" where
  "alerts w = concat (map (\<lambda>e. case e of Alert s \<Rightarrow> [s] | _ \<Rightarrow> []) (effects w))"

text \<open>The messages of the chat that are flagged as still streaming.\<close>

definition streamingMessages :: "AppState \<Rightarrow> Message list" where
  "streamingMessages s = filter (\<lambda>msg. msg_isStreaming msg = Some True) (chatHistory s)"

section \<open>The component as a transition system\<close>

text \<open>
  JavaScript runs a handler without interruption up to its next \<^verbatim>\<open>await\<close>; while a
  service call is pending, other handlers may run. A pending call is a task: the
  continuation of the handler that awaits it, with the local variables it closes over
  (\<^verbatim>\<open>modelMsgId\<close> and \<^verbatim>\<open>fullResponse\<close> for a chat stream).
\<close>

datatype Task = CurriculumTask | StreamTask string string | QuizTask

inductive reachable :: "World \<Rightarrow> Task list \<Rightarrow> bool" where
  r_init: "reachable initialWorld []"
| r_topic: "reachable w ts \<Longrightarrow> reachable (setTopicInput t w) ts"
| r_home: "reachable w ts \<Longrightarrow> reachable (onHomeClick w) ts"
| r_close: "reachable w ts \<Longrightarrow> reachable (onClose w) ts"
| r_submit:
    "reachable w ts \<Longrightarrow> trim (topicInput w) \<noteq> [] \<Longrightarrow>
     reachable (handleGenerateCurriculum_begin w) (CurriculumTask # ts)"
| r_curriculum_resolved:
    "reachable w ts \<Longrightarrow> CurriculumTask \<in> set ts \<Longrightarrow>
     reachable (handleGenerateCurriculum_resolved c gid w) (remove1 CurriculumTask ts)"
| r_curriculum_thrown:
    "reachable w ts \<Longrightarrow> CurriculumTask \<in> set ts \<Longrightarrow>
     reachable (handleGenerateCurriculum_catch e w) (remove1 CurriculumTask ts)"
| r_select: "reachable w ts \<Longrightarrow> reachable (handleSelectLesson moduleIndex lessonIndex cid w) ts"
| r_send:
    "reachable w ts \<Longrightarrow> activeCourse (state w) = Some c \<Longrightarrow>
     activeModule (state w) = Some m \<Longrightarrow> activeLesson (state w) = Some l \<Longrightarrow>
     reachable (handleSendMessage_begin c m l text uid modelMsgId w)
       (StreamTask modelMsgId [] # ts)"
| r_chunk:
    "reachable w ts \<Longrightarrow> StreamTask modelMsgId fullResponse \<in> set ts \<Longrightarrow>
     reachable (snd (onChunk modelMsgId (fullResponse, w) chunk))
       (StreamTask modelMsgId (fullResponse @ chunk)
          # remove1 (StreamTask modelMsgId fullResponse) ts)"
| r_stream_end:
    "reachable w ts \<Longrightarrow> StreamTask modelMsgId fullResponse \<in> set ts \<Longrightarrow>
     reachable (handleSendMessage_finally modelMsgId thrown w)
       (remove1 (StreamTask modelMsgId fullResponse) ts)"
| r_quiz_no_module:
    "reachable w ts \<Longrightarrow> activeCourse (state w) = Some c \<Longrightarrow>
     js_index (modules c) moduleIndex = None \<Longrightarrow>
     reachable (handleTakeQuiz_catch TypeError
                  (setState (\<lambda>prev. prev\<lparr>isLoading := True\<rparr>) w)) ts"
| r_quiz:
    "reachable w ts \<Longrightarrow> activeCourse (state w) = Some c \<Longrightarrow>
     js_index (modules c) moduleIndex = Some m \<Longrightarrow>
     reachable (handleTakeQuiz_call m c (setState (\<lambda>prev. prev\<lparr>isLoading := True\<rparr>) w))
       (QuizTask # ts)"
| r_quiz_resolved:
    "reachable w ts \<Longrightarrow> QuizTask \<in> set ts \<Longrightarrow>
     reachable (handleTakeQuiz_resolved q w) (remove1 QuizTask ts)"
| r_quiz_thrown:
    "reachable w ts \<Longrightarrow> QuizTask \<in> set ts \<Longrightarrow>
     reachable (handleTakeQuiz_catch e w) (remove1 QuizTask ts)"

section \<open>Auxiliary definitions\<close>

text \<open>The list update that the streaming callback performs on the chat.\<close>

definition setContent :: "string \<Rightarrow> string \<Rightarrow> Message list \<Rightarrow> Message list" where
  "setContent modelMsgId s h =
     map (\<lambda>msg. if msg_id msg = modelMsgId then msg\<lparr>content := s\<rparr> else msg) h"

text \<open>Every message flagged as streaming belongs to a stream that is still pending.\<close>

definition tracked :: "World \<Rightarrow> Task list \<Rightarrow> bool" where
  "tracked w ts \<longleftrightarrow>
     (\<forall>msg \<in> set (chatHistory (state w)).
        msg_isStreaming msg = Some True \<longrightarrow> (\<exists>fr. StreamTask (msg_id msg) fr \<in> set ts))"

subsection \<open>A sample session\<close>

definition exampleLesson :: Lesson where
  "exampleLesson = \<lparr>lesson_title = ''Perceptrons'', lesson_description = ''One neuron.''\<rparr>"

definition exampleModule :: Module where
  "exampleModule = \<lparr>module_title = ''Basics'', lessons = [exampleLesson]\<rparr>"

definition exampleCourse :: Course where
  "exampleCourse =
     \<lparr>course_id = ''c1'', topic = ''Neural Networks'', course_title = ''Neural Networks 101'',
      course_description = ''An introduction.'', modules = [exampleModule]\<rparr>"

definition exampleQuiz :: Quiz where
  "exampleQuiz = \<lparr>quiz_title = ''Basics quiz'', questions = []\<rparr>"

text \<open>The landing page with a topic typed in, and the course view after the service answered.\<close>

definition typedWorld :: World where
  "typedWorld = setTopicInput ''Neural Networks'' initialWorld"

definition exampleWorld :: World where
  "exampleWorld = handleGenerateCurriculum (Inr exampleCourse) ''g1'' typedWorld"



section \<open>Basic facts\<close>

lemmas prim_defs = setState_def emit_def

lemma js_index_0: "js_index xs 0 = (case xs of [] \<Rightarrow> None | x # _ \<Rightarrow> Some x)"
  by (simp add: js_index_def split: list.splits)

lemma dropWhile_all_iff:
  "(\<forall>x \<in> set (dropWhile P s). P x) \<longleftrightarrow> (\<forall>x \<in> set s. P x)"
  by (induction s) auto

lemma trim_empty_iff: "trim s = [] \<longleftrightarrow> (\<forall>c \<in> set s. isWhiteSpace c)"
  by (simp add: trim_def dropWhile_eq_Nil_conv dropWhile_all_iff)

lemma greeting_nonempty:
  "modules c \<noteq> [] \<Longrightarrow> lessons (hd (modules c)) \<noteq> [] \<Longrightarrow>
   greeting c gid = Inr \<lparr>msg_id = gid, role = Model,
      content = greetingContent c (hd (lessons (hd (modules c)))), msg_isStreaming = None\<rparr>"
  by (auto simp: greeting_def js_index_0 split: list.splits)

lemma streamingMessages_empty_iff:
  "streamingMessages s = [] \<longleftrightarrow>
     (\<forall>msg \<in> set (chatHistory s). msg_isStreaming msg \<noteq> Some True)"
  by (simp add: streamingMessages_def filter_empty_conv)

subsection \<open>The streaming callback\<close>

lemma setContent_twice: "setContent i s (setContent i s' h) = setContent i s h"
  by (induction h) (auto simp: setContent_def)

lemma setContent_fresh: "i \<notin> msg_id ` set h \<Longrightarrow> setContent i s h = h"
  by (induction h) (auto simp: setContent_def)

lemma setContent_append: "setContent i s (h @ h') = setContent i s h @ setContent i s h'"
  by (simp add: setContent_def)

lemma setContent_keeps:
  "x \<in> set (setContent i s h) \<Longrightarrow>
   \<exists>y \<in> set h. msg_id x = msg_id y \<and> msg_isStreaming x = msg_isStreaming y"
  by (auto simp: setContent_def)

lemma onChunk_eq:
  "onChunk i (acc, w) chunk =
     (acc @ chunk,
      w\<lparr>state := (state w)\<lparr>chatHistory := setContent i (acc @ chunk) (chatHistory (state w))\<rparr>\<rparr>)"
  by (simp add: onChunk_def setContent_def prim_defs Let_def)

text \<open>
  After the first chunk the message holds everything received so far; the accumulator
  is generalised because each call of the callback extends it.
\<close>

lemma foldl_onChunk:
  "foldl (onChunk i) (acc, w) chunks =
     (acc @ concat chunks,
      if chunks = [] then w
      else w\<lparr>state := (state w)\<lparr>chatHistory :=
                setContent i (acc @ concat chunks) (chatHistory (state w))\<rparr>\<rparr>)"
proof (induction chunks arbitrary: acc w)
  case Nil
  show ?case by simp
next
  case (Cons ch chunks)
  show ?case
    by (simp add: onChunk_eq Cons.IH setContent_twice)
qed

lemma streamChunks_eq:
  "streamChunks i chunks w =
     (concat chunks,
      if chunks = [] then w
      else w\<lparr>state := (state w)\<lparr>chatHistory :=
                setContent i (concat chunks) (chatHistory (state w))\<rparr>\<rparr>)"
  using foldl_onChunk [of i "[]" w chunks] by (simp add: streamChunks_def)


subsection \<open>The pieces of handleSendMessage\<close>

lemma chatHistory_begin:
  "chatHistory (state (handleSendMessage_begin c m l text uid i w)) =
     chatHistory (state w) @
       [\<lparr>msg_id = uid, role = User, content = text, msg_isStreaming = None\<rparr>,
        \<lparr>msg_id = i, role = Model, content = [], msg_isStreaming = Some True\<rparr>]"
  by (simp add: handleSendMessage_begin_def prim_defs Let_def)


lemma begin_effects:
  "effects (handleSendMessage_begin c m l text uid i w) =
     effects w @ [Call (StreamChatResponse
                    (map (\<lambda>msg. (role msg, content msg)) (chatHistory (state w)))
                    (contextAwarePrompt c m l text))]"
  by (simp add: handleSendMessage_begin_def prim_defs Let_def)


lemma history_finally:
  "msg \<in> set (chatHistory (state (handleSendMessage_finally i thrown w))) \<Longrightarrow>
   msg_isStreaming msg = Some True \<Longrightarrow>
   msg \<in> set (chatHistory (state w)) \<and> msg_id msg \<noteq> i"
  by (cases thrown)
    (auto simp: handleSendMessage_finally_def prim_defs Let_def split: if_splits)

lemma handleSendMessage_run:
  assumes "activeCourse (state w) = Some c" and "activeModule (state w) = Some m"
    and "activeLesson (state w) = Some l"
  shows "handleSendMessage text uid i chunks thrown w =
     handleSendMessage_finally i thrown
       (snd (streamChunks i chunks (handleSendMessage_begin c m l text uid i w)))"
  using assms by (simp add: handleSendMessage_def)

subsection \<open>Which messages stay flagged\<close>




lemma effects_finally:
  "effects (handleSendMessage_finally i thrown v) =
     effects v @ (case thrown of None \<Rightarrow> [] | Some err \<Rightarrow> [ConsoleError err])"
  by (cases thrown) (simp_all add: handleSendMessage_finally_def prim_defs Let_def)

lemma effects_streamChunks: "effects (snd (streamChunks i chunks w)) = effects w"
  by (simp add: streamChunks_eq)


subsection \<open>What each step does to the view\<close>

lemma view_select:
  "currentView (state (handleSelectLesson mi li cid w)) = currentView (state w)"
  by (simp add: handleSelectLesson_def prim_defs Let_def split: option.splits)

lemma view_curriculum_resolved:
  "currentView (state (handleGenerateCurriculum_resolved c gid w)) = VCourse"
  by (simp add: handleGenerateCurriculum_resolved_def handleGenerateCurriculum_catch_def
      prim_defs Let_def split: sum.splits)

lemma view_curriculum_catch:
  "currentView (state (handleGenerateCurriculum_catch e w)) = currentView (state w)"
  by (simp add: handleGenerateCurriculum_catch_def prim_defs)

lemma view_curriculum_begin:
  "currentView (state (handleGenerateCurriculum_begin w)) = currentView (state w)"
  by (simp add: handleGenerateCurriculum_begin_def prim_defs)

lemma view_send_begin:
  "currentView (state (handleSendMessage_begin c m l text uid i w)) = currentView (state w)"
  by (simp add: handleSendMessage_begin_def prim_defs Let_def)

lemma view_onChunk:
  "currentView (state (snd (onChunk i (acc, w) chunk))) = currentView (state w)"
  by (simp add: onChunk_eq)

lemma view_finally:
  "currentView (state (handleSendMessage_finally i thrown w)) = currentView (state w)"
  by (cases thrown) (simp_all add: handleSendMessage_finally_def prim_defs Let_def)

lemma view_quiz_catch:
  "currentView (state (handleTakeQuiz_catch e w)) = currentView (state w)"
  by (simp add: handleTakeQuiz_catch_def prim_defs)

lemma view_quiz_call:
  "currentView (state (handleTakeQuiz_call m c w)) = currentView (state w)"
  by (simp add: handleTakeQuiz_call_def prim_defs)

lemma view_quiz_resolved:
  "currentView (state (handleTakeQuiz_resolved q w)) = currentView (state w)"
  by (simp add: handleTakeQuiz_resolved_def prim_defs)

lemmas view_simps = view_select view_curriculum_resolved view_curriculum_catch
  view_curriculum_begin view_send_begin view_onChunk view_finally view_quiz_catch
  view_quiz_call view_quiz_resolved

subsection \<open>Whole runs are paths of the transition system\<close>

lemma reachable_handleGenerateCurriculum:
  assumes "reachable w ts"
  shows "reachable (handleGenerateCurriculum answer gid w) ts"
proof (cases "trim (topicInput w) = []")
  case True
  with assms show ?thesis by (simp add: handleGenerateCurriculum_def)
next
  case False
  with assms have b: "reachable (handleGenerateCurriculum_begin w) (CurriculumTask # ts)"
    by (rule r_submit)
  show ?thesis
  proof (cases answer)
    case (Inl e)
    with r_curriculum_thrown [OF b, of e] False show ?thesis
      by (simp add: handleGenerateCurriculum_def)
  next
    case (Inr c)
    with r_curriculum_resolved [OF b, of c gid] False show ?thesis
      by (simp add: handleGenerateCurriculum_def)
  qed
qed

lemma reachable_chunks:
  assumes "reachable w (StreamTask i acc # ts)"
  shows "reachable (snd (foldl (onChunk i) (acc, w) chunks))
           (StreamTask i (fst (foldl (onChunk i) (acc, w) chunks)) # ts)"
  using assms
proof (induction chunks arbitrary: acc w)
  case Nil
  then show ?case by simp
next
  case (Cons ch chunks)
  from r_chunk [OF Cons.prems, of i acc ch]
  have "reachable (snd (onChunk i (acc, w) ch)) (StreamTask i (acc @ ch) # ts)"
    by simp
  from Cons.IH [OF this] show ?case
    by (simp add: onChunk_eq)
qed

lemma reachable_handleSendMessage:
  assumes "reachable w ts"
  shows "reachable (handleSendMessage msgText uid i chunks thrown w) ts"
proof (cases "activeLesson (state w)")
  case None
  with assms show ?thesis
    by (simp add: handleSendMessage_def split: option.splits)
next
  case (Some l)
  then obtain c m where cm: "activeCourse (state w) = Some c" "activeModule (state w) = Some m"
    by (auto simp: activeLesson_def activeModule_def split: option.splits)
  let ?b = "handleSendMessage_begin c m l msgText uid i w"
  have "reachable ?b (StreamTask i [] # ts)"
    using assms cm Some by (rule r_send)
  then have "reachable (snd (streamChunks i chunks ?b))
      (StreamTask i (fst (streamChunks i chunks ?b)) # ts)"
    unfolding streamChunks_def by (rule reachable_chunks)
  from r_stream_end [OF this, of i "fst (streamChunks i chunks ?b)" thrown]
  show ?thesis
    by (simp add: handleSendMessage_run [OF cm Some])
qed

lemma reachable_handleTakeQuiz:
  assumes "reachable w ts"
  shows "reachable (handleTakeQuiz moduleIndex answer w) ts"
proof (cases "activeCourse (state w)")
  case None
  with assms show ?thesis by (simp add: handleTakeQuiz_def)
next
  case (Some c)
  show ?thesis
  proof (cases "js_index (modules c) moduleIndex")
    case None
    with r_quiz_no_module [OF assms Some None] Some show ?thesis
      by (simp add: handleTakeQuiz_def)
  next
    case m: (Some m)
    have b: "reachable (handleTakeQuiz_call m c (setState (\<lambda>prev. prev\<lparr>isLoading := True\<rparr>) w))
        (QuizTask # ts)"
      using assms Some m by (rule r_quiz)
    show ?thesis
    proof (cases answer)
      case (Inl e)
      with r_quiz_thrown [OF b, of e] Some m show ?thesis
        by (simp add: handleTakeQuiz_def)
    next
      case (Inr q)
      with r_quiz_resolved [OF b, of q] Some m show ?thesis
        by (simp add: handleTakeQuiz_def)
    qed
  qed
qed

subsection \<open>Streaming flags along the transition system\<close>

lemma history_select:
  "set (chatHistory (state (handleSelectLesson mi li cid w))) \<subseteq>
     set (chatHistory (state w)) \<union> {msg. msg_isStreaming msg = None}"
  by (auto simp: handleSelectLesson_def prim_defs Let_def split: option.splits)

lemma history_curriculum_resolved:
  "set (chatHistory (state (handleGenerateCurriculum_resolved c gid w))) \<subseteq>
     {msg. msg_isStreaming msg = None}"
  by (auto simp: handleGenerateCurriculum_resolved_def handleGenerateCurriculum_catch_def
      greeting_def prim_defs Let_def split: sum.splits option.splits)

lemma tracked_reachable:
  assumes "reachable w ts"
  shows "tracked w ts"
  using assms
proof (induction rule: reachable.induct)
  case r_init
  show ?case by (simp add: tracked_def initialWorld_def initialState_def)
next
  case (r_topic w ts t)
  then show ?case by (simp add: tracked_def setTopicInput_def)
next
  case (r_home w ts)
  then show ?case by (simp add: tracked_def onHomeClick_def prim_defs)
next
  case (r_close w ts)
  then show ?case by (simp add: tracked_def onClose_def prim_defs)
next
  case (r_submit w ts)
  then show ?case
    by (auto simp: tracked_def handleGenerateCurriculum_begin_def prim_defs)
next
  case (r_curriculum_resolved w ts c gid)
  show ?case
    using history_curriculum_resolved [of c gid w] by (auto simp: tracked_def)
next
  case (r_curriculum_thrown w ts e)
  then show ?case
    by (auto simp: tracked_def handleGenerateCurriculum_catch_def prim_defs)
next
  case (r_select w ts moduleIndex lessonIndex cid)
  then show ?case
    using history_select [of moduleIndex lessonIndex cid w] by (auto simp: tracked_def)
next
  case (r_send w ts c m l _ uid modelMsgId)
  then show ?case
    by (auto simp: tracked_def chatHistory_begin)
next
  case (r_chunk w ts modelMsgId fullResponse chunk)
  show ?case
    unfolding tracked_def
  proof (intro ballI impI)
    fix msg
    assume "msg \<in> set (chatHistory (state (snd (onChunk modelMsgId (fullResponse, w) chunk))))"
      and flag: "msg_isStreaming msg = Some True"
    then obtain y where y: "y \<in> set (chatHistory (state w))" "msg_id msg = msg_id y"
      "msg_isStreaming msg = msg_isStreaming y"
      by (auto simp: onChunk_eq dest: setContent_keeps)
    with flag r_chunk.IH obtain fr where fr: "StreamTask (msg_id msg) fr \<in> set ts"
      by (auto simp: tracked_def)
    show "\<exists>fr. StreamTask (msg_id msg) fr
        \<in> set (StreamTask modelMsgId (fullResponse @ chunk)
                 # remove1 (StreamTask modelMsgId fullResponse) ts)"
    proof (cases "msg_id msg = modelMsgId")
      case True
      then show ?thesis by auto
    next
      case False
      with fr have "StreamTask (msg_id msg) fr
          \<in> set (remove1 (StreamTask modelMsgId fullResponse) ts)"
        by simp
      then show ?thesis by auto
    qed
  qed
next
  case (r_stream_end w ts modelMsgId fullResponse thrown)
  show ?case
    unfolding tracked_def
  proof (intro ballI impI)
    fix msg
    assume "msg \<in> set (chatHistory (state (handleSendMessage_finally modelMsgId thrown w)))"
      and flag: "msg_isStreaming msg = Some True"
    then have "msg \<in> set (chatHistory (state w))" and ne: "msg_id msg \<noteq> modelMsgId"
      using history_finally by blast+
    with flag r_stream_end.IH obtain fr where fr: "StreamTask (msg_id msg) fr \<in> set ts"
      by (auto simp: tracked_def)
    with ne have "StreamTask (msg_id msg) fr
        \<in> set (remove1 (StreamTask modelMsgId fullResponse) ts)"
      by simp
    then show "\<exists>fr. StreamTask (msg_id msg) fr
        \<in> set (remove1 (StreamTask modelMsgId fullResponse) ts)"
      by auto
  qed
next
  case (r_quiz_no_module w ts c moduleIndex)
  then show ?case
    by (auto simp: tracked_def handleTakeQuiz_catch_def prim_defs)
next
  case (r_quiz w ts c moduleIndex m)
  then show ?case
    by (auto simp: tracked_def handleTakeQuiz_call_def prim_defs)
next
  case (r_quiz_resolved w ts q)
  then show ?case
    by (auto simp: tracked_def handleTakeQuiz_resolved_def prim_defs)
next
  case (r_quiz_thrown w ts e)
  then show ?case
    by (auto simp: tracked_def handleTakeQuiz_catch_def prim_defs)
qed

text \<open>With no chat stream pending, no message is flagged as streaming.\<close>

lemma no_stream_no_flag:
  assumes "reachable w ts" and "\<forall>i fr. StreamTask i fr \<notin> set ts"
  shows "streamingMessages (state w) = []"
  using tracked_reachable [OF assms(1)] assms(2)
  by (auto simp: tracked_def streamingMessages_empty_iff)

subsection \<open>The sample session, evaluated\<close>

lemma trim_typed: "trim (topicInput typedWorld) \<noteq> []"
  by (simp add: typedWorld_def setTopicInput_def initialWorld_def trim_def isWhiteSpace_def)

lemma exampleCourse_shape:
  "modules exampleCourse \<noteq> []" "lessons (hd (modules exampleCourse)) \<noteq> []"
  "hd (lessons (hd (modules exampleCourse))) = exampleLesson"
  by (simp_all add: exampleCourse_def exampleModule_def)

lemma exampleWorld_eq:
  "exampleWorld =
     \<lparr>state = \<lparr>currentView = VCourse, courses = [exampleCourse], activeCourseId = Some ''c1'',
               activeModuleIndex = Some 0, activeLessonIndex = Some 0,
               chatHistory = [\<lparr>msg_id = ''g1'', role = Model,
                  content = greetingContent exampleCourse exampleLesson,
                  msg_isStreaming = None\<rparr>],
               activeQuiz = None, isLoading = False\<rparr>,
      topicInput = ''Neural Networks'', isStreaming = False,
      effects = [Call (GenerateCourseCurriculum ''Neural Networks'')]\<rparr>"
  using trim_typed
  by (simp add: exampleWorld_def handleGenerateCurriculum_def
      handleGenerateCurriculum_resolved_def handleGenerateCurriculum_begin_def
      greeting_nonempty exampleCourse_shape prim_defs)
    (simp add: typedWorld_def setTopicInput_def initialWorld_def initialState_def
      exampleCourse_def)

lemma example_active:
  "activeCourse (state exampleWorld) = Some exampleCourse"
  "activeModule (state exampleWorld) = Some exampleModule"
  "activeLesson (state exampleWorld) = Some exampleLesson"
  by (simp_all add: exampleWorld_eq activeLesson_def activeModule_def activeCourse_def
      js_index_def exampleCourse_def exampleModule_def)

lemma example_indices:
  "js_index (modules exampleCourse) 0 = Some exampleModule"
  "js_index (lessons exampleModule) 0 = Some exampleLesson"
  "js_index (modules exampleCourse) 1 = None"
  by (simp_all add: js_index_def exampleCourse_def exampleModule_def)

lemma reachable_exampleWorld: "reachable exampleWorld []"
  unfolding exampleWorld_def typedWorld_def
  by (intro reachable_handleGenerateCurriculum r_topic r_init)



section \<open>Curriculum generation\<close>

text \<open>
  C1, as the code has it. For every successful curriculum-generation call of
  handleGenerateCurriculum whose course has at least one module, the first module having
  at least one lesson: the course is appended to the end of the courses list,
  activeCourseId is the id of the new course, currentView is 'course', activeModuleIndex
  and activeLessonIndex are both 0, isLoading is false, and chatHistory consists of exactly
  one message, the greeting, with role 'model'. Nothing else changes, and the only effect
  is the service call.
\<close>

theorem handleGenerateCurriculum_success:
  assumes "trim (topicInput w) \<noteq> []"
    and "modules c \<noteq> []" and "lessons (hd (modules c)) \<noteq> []"
  shows "handleGenerateCurriculum (Inr c) gid w =
     w\<lparr>state := (state w)\<lparr>courses := courses (state w) @ [c],
                            activeCourseId := Some (course_id c),
                            currentView := VCourse,
                            activeModuleIndex := Some 0,
                            activeLessonIndex := Some 0,
                            chatHistory := [\<lparr>msg_id = gid, role = Model,
                               content = greetingContent c (hd (lessons (hd (modules c)))),
                               msg_isStreaming = None\<rparr>],
                            isLoading := False\<rparr>,
        effects := effects w @ [Call (GenerateCourseCurriculum (topicInput w))]\<rparr>"
  using assms
  by (simp add: handleGenerateCurriculum_def handleGenerateCurriculum_resolved_def
      handleGenerateCurriculum_begin_def greeting_nonempty prim_defs)

text \<open>
  An instance of C1: the sample course, generated from the landing page.
\<close>

theorem handleGenerateCurriculum_success_witness:
  "trim (topicInput typedWorld) \<noteq> [] \<and> modules exampleCourse \<noteq> []
   \<and> lessons (hd (modules exampleCourse)) \<noteq> []
   \<and> courses (state (handleGenerateCurriculum (Inr exampleCourse) ''g1'' typedWorld))
       = [exampleCourse]
   \<and> activeCourseId (state (handleGenerateCurriculum (Inr exampleCourse) ''g1'' typedWorld))
       = Some ''c1''
   \<and> currentView (state (handleGenerateCurriculum (Inr exampleCourse) ''g1'' typedWorld))
       = VCourse
   \<and> chatHistory (state (handleGenerateCurriculum (Inr exampleCourse) ''g1'' typedWorld))
       = [\<lparr>msg_id = ''g1'', role = Model,
           content = greetingContent exampleCourse exampleLesson, msg_isStreaming = None\<rparr>]"
  using handleGenerateCurriculum_success [OF trim_typed exampleCourse_shape(1,2), of "''g1''"]
    trim_typed
  by (simp add: exampleCourse_shape)
    (simp add: typedWorld_def setTopicInput_def initialWorld_def initialState_def
      exampleCourse_def)

text \<open>
  C1 as stated (every course the service returns) fails: the service may return a course
  without modules. The course is stored and shown, the chat stays empty, and the user is
  told that the generation failed.
\<close>

theorem handleGenerateCurriculum_no_greeting:
  "chatHistory (state (handleGenerateCurriculum (Inr (exampleCourse\<lparr>modules := []\<rparr>)) ''g1''
      typedWorld)) = []
   \<and> alerts (handleGenerateCurriculum (Inr (exampleCourse\<lparr>modules := []\<rparr>)) ''g1'' typedWorld)
       = [''Failed to generate curriculum. Please try again.'']"
  using trim_typed
  by (simp add: handleGenerateCurriculum_def handleGenerateCurriculum_resolved_def
      handleGenerateCurriculum_begin_def handleGenerateCurriculum_catch_def greeting_def
      js_index_def prim_defs alerts_def typedWorld_def setTopicInput_def initialWorld_def
      initialState_def)

text \<open>
  C7. Curriculum generation is atomic on error: when the service call throws, the
  resulting state is the state before the call except that isLoading is false; the topic
  input and the streaming flag are untouched.
\<close>

theorem handleGenerateCurriculum_thrown:
  assumes "trim (topicInput w) \<noteq> []"
  shows "state (handleGenerateCurriculum (Inl e) gid w) = (state w)\<lparr>isLoading := False\<rparr>
       \<and> topicInput (handleGenerateCurriculum (Inl e) gid w) = topicInput w
       \<and> isStreaming (handleGenerateCurriculum (Inl e) gid w) = isStreaming w"
  using assms
  by (simp add: handleGenerateCurriculum_def handleGenerateCurriculum_catch_def
      handleGenerateCurriculum_begin_def prim_defs)

text \<open>
  An instance of C7: a failed generation from the landing page leaves the initial state.
\<close>

theorem handleGenerateCurriculum_thrown_witness:
  "trim (topicInput typedWorld) \<noteq> []
   \<and> state (handleGenerateCurriculum (Inl (ServiceError ''boom'')) ''g1'' typedWorld)
       = initialState"
  using handleGenerateCurriculum_thrown [OF trim_typed, of "ServiceError ''boom''" "''g1''"]
    trim_typed
  by (simp add: typedWorld_def setTopicInput_def initialWorld_def initialState_def)

text \<open>
  C10. The greeting reads course.modules[0].lessons[0] unguarded. When the course has at
  least one module and its first module at least one lesson, the read succeeds: the
  greeting is built and the catch block is not entered. For a course without modules, or
  whose first module has no lessons, the read throws a TypeError, which the catch block
  of handleGenerateCurriculum reports.
\<close>

theorem greeting_safe:
  "(modules c \<noteq> [] \<and> lessons (hd (modules c)) \<noteq> [] \<longrightarrow>
      greeting c gid = Inr \<lparr>msg_id = gid, role = Model,
        content = greetingContent c (hd (lessons (hd (modules c)))), msg_isStreaming = None\<rparr>
      \<and> effects (handleGenerateCurriculum_resolved c gid w) = effects w)
   \<and> (modules c = [] \<or> lessons (hd (modules c)) = [] \<longrightarrow>
      greeting c gid = Inl TypeError
      \<and> effects (handleGenerateCurriculum_resolved c gid w) =
          effects w @ [ConsoleError TypeError,
                       Alert ''Failed to generate curriculum. Please try again.''])"
  by (auto simp: greeting_def js_index_0 handleGenerateCurriculum_resolved_def
      handleGenerateCurriculum_catch_def prim_defs split: list.splits)

text \<open>
  Instances of C10: the sample course, and the sample course stripped of its modules.
\<close>

theorem greeting_safe_witness:
  "modules exampleCourse \<noteq> [] \<and> lessons (hd (modules exampleCourse)) \<noteq> []
   \<and> greeting exampleCourse ''g1'' = Inr \<lparr>msg_id = ''g1'', role = Model,
        content = greetingContent exampleCourse exampleLesson, msg_isStreaming = None\<rparr>
   \<and> modules (exampleCourse\<lparr>modules := []\<rparr>) = []
   \<and> greeting (exampleCourse\<lparr>modules := []\<rparr>) ''g1'' = Inl TypeError"
  using greeting_safe [of exampleCourse "''g1''"]
    greeting_safe [of "exampleCourse\<lparr>modules := []\<rparr>" "''g1''"] exampleCourse_shape
  by simp

section \<open>Lesson selection and quizzes\<close>

text \<open>
  C4. For every call handleSelectLesson(m, l) with an active course whose
  modules[m].lessons[l] exists, the resulting state has activeModuleIndex = m and
  activeLessonIndex = l, exactly one context-switch message with role 'model' appended to
  the end of chatHistory, and everything else (currentView, courses, activeCourseId,
  activeQuiz, isLoading, the topic input, the streaming flag, the effects) unchanged.
\<close>

theorem handleSelectLesson_frame:
  assumes "activeCourse (state w) = Some c"
    and "js_index (modules c) moduleIndex = Some m"
    and "js_index (lessons m) lessonIndex = Some l"
  shows "handleSelectLesson moduleIndex lessonIndex cid w =
     w\<lparr>state := (state w)\<lparr>activeModuleIndex := Some moduleIndex,
                            activeLessonIndex := Some lessonIndex,
                            chatHistory := chatHistory (state w) @
                              [\<lparr>msg_id = cid, role = Model, content = contextMsgContent m l,
                                msg_isStreaming = None\<rparr>]\<rparr>\<rparr>"
  using assms by (simp add: handleSelectLesson_def prim_defs)

text \<open>
  An instance of C4: selecting the first lesson of the sample course.
\<close>

theorem handleSelectLesson_frame_witness:
  "activeCourse (state exampleWorld) = Some exampleCourse
   \<and> js_index (modules exampleCourse) 0 = Some exampleModule
   \<and> js_index (lessons exampleModule) 0 = Some exampleLesson
   \<and> handleSelectLesson 0 0 ''x1'' exampleWorld =
       exampleWorld\<lparr>state := (state exampleWorld)\<lparr>activeModuleIndex := Some 0,
          activeLessonIndex := Some 0,
          chatHistory := chatHistory (state exampleWorld) @
            [\<lparr>msg_id = ''x1'', role = Model,
              content = contextMsgContent exampleModule exampleLesson,
              msg_isStreaming = None\<rparr>]\<rparr>\<rparr>"
  using handleSelectLesson_frame [OF example_active(1) example_indices(1,2), of "''x1''"]
    example_active(1) example_indices(1,2)
  by simp

text \<open>
  C5. For every call handleTakeQuiz(moduleIndex) with an active course: if the quiz
  generation succeeds, the resulting state has activeQuiz equal to the generated quiz and
  isLoading false, and the other fields are unchanged; if it fails (the service throws, or
  the module does not exist and the service is never reached), activeQuiz is unchanged and
  isLoading is false.
\<close>

theorem handleTakeQuiz_outcomes:
  assumes "activeCourse (state w) = Some c"
  shows "(js_index (modules c) moduleIndex = Some m \<longrightarrow>
            state (handleTakeQuiz moduleIndex (Inr q) w)
              = (state w)\<lparr>activeQuiz := Some q, isLoading := False\<rparr>)
       \<and> (js_index (modules c) moduleIndex = None \<or> answer = Inl e \<longrightarrow>
            state (handleTakeQuiz moduleIndex answer w) = (state w)\<lparr>isLoading := False\<rparr>)"
  using assms
  by (auto simp: handleTakeQuiz_def handleTakeQuiz_resolved_def handleTakeQuiz_catch_def
      handleTakeQuiz_call_def prim_defs Let_def split: option.splits sum.splits)

text \<open>
  Instances of C5: a quiz for the first module of the sample course, generated and failed.
\<close>

theorem handleTakeQuiz_outcomes_witness:
  "activeCourse (state exampleWorld) = Some exampleCourse
   \<and> js_index (modules exampleCourse) 0 = Some exampleModule
   \<and> activeQuiz (state (handleTakeQuiz 0 (Inr exampleQuiz) exampleWorld)) = Some exampleQuiz
   \<and> \<not> isLoading (state (handleTakeQuiz 0 (Inr exampleQuiz) exampleWorld))
   \<and> activeQuiz (state (handleTakeQuiz 0 (Inl (ServiceError ''boom'')) exampleWorld)) = None
   \<and> \<not> isLoading (state (handleTakeQuiz 0 (Inl (ServiceError ''boom'')) exampleWorld))"
  using handleTakeQuiz_outcomes [OF example_active(1), of 0 exampleModule exampleQuiz
      "Inl (ServiceError ''boom'')" "ServiceError ''boom''"]
    example_active(1) example_indices(1)
  by (simp add: exampleWorld_eq)

section \<open>The chat\<close>

text \<open>
  C2. During handleSendMessage, after the streaming callback has been invoked on the
  chunks c1 .. ck, the chat history is the history before the call, followed by the user
  message carrying the sent text, followed by the model message with id modelMsgId whose
  content is the concatenation c1 @ ... @ ck. Every other message keeps its content, id,
  role and position. The id modelMsgId comes from crypto.randomUUID(): it is new, that is,
  different from the id of the user message and from the ids already in the history.
\<close>

theorem streaming_accumulates:
  assumes "modelMsgId \<notin> msg_id ` set (chatHistory (state w))" and "modelMsgId \<noteq> uid"
  shows "fst (streamChunks modelMsgId chunks
                (handleSendMessage_begin c m l msgText uid modelMsgId w)) = concat chunks
       \<and> chatHistory (state (snd (streamChunks modelMsgId chunks
                (handleSendMessage_begin c m l msgText uid modelMsgId w)))) =
           chatHistory (state w) @
             [\<lparr>msg_id = uid, role = User, content = msgText, msg_isStreaming = None\<rparr>,
              \<lparr>msg_id = modelMsgId, role = Model, content = concat chunks,
                msg_isStreaming = Some True\<rparr>]"
  using assms
  by (simp add: streamChunks_eq chatHistory_begin setContent_append setContent_fresh)
    (simp add: setContent_def)

text \<open>
  An instance of C2: two chunks streamed into the chat of the sample course.
\<close>

theorem streaming_accumulates_witness:
  "''m1'' \<notin> msg_id ` set (chatHistory (state exampleWorld)) \<and> ''m1'' \<noteq> ''u1''
   \<and> chatHistory (state (snd (streamChunks ''m1'' [''Hel'', ''lo'']
        (handleSendMessage_begin exampleCourse exampleModule exampleLesson ''hi'' ''u1'' ''m1''
           exampleWorld)))) =
      chatHistory (state exampleWorld) @
        [\<lparr>msg_id = ''u1'', role = User, content = ''hi'', msg_isStreaming = None\<rparr>,
         \<lparr>msg_id = ''m1'', role = Model, content = ''Hello'', msg_isStreaming = Some True\<rparr>]"
proof -
  have fresh: "''m1'' \<notin> msg_id ` set (chatHistory (state exampleWorld))"
    by (simp add: exampleWorld_eq)
  have distinct: "''m1'' \<noteq> ''u1''"
    by simp
  from streaming_accumulates [OF fresh distinct, of "[''Hel'', ''lo'']" exampleCourse
      exampleModule exampleLesson "''hi''"] fresh
  show ?thesis by simp
qed




text \<open>
  C8. The guards at the public interface: handleSendMessage without an active course,
  module or lesson, and handleGenerateCurriculum with an empty or white-space-only topic,
  leave the whole component unchanged and call no service.
\<close>

theorem guards_leave_world_unchanged:
  "(activeCourse (state w) = None \<or> activeModule (state w) = None \<or> activeLesson (state w) = None
      \<longrightarrow> handleSendMessage msgText uid modelMsgId chunks thrown w = w)
   \<and> ((\<forall>ch \<in> set (topicInput w). isWhiteSpace ch)
      \<longrightarrow> handleGenerateCurriculum answer gid w = w)"
  by (auto simp: handleSendMessage_def handleGenerateCurriculum_def trim_empty_iff
      split: option.splits)

text \<open>
  Instances of C8: a message sent from the landing page, and a topic of two spaces.
\<close>

theorem guards_leave_world_unchanged_witness:
  "activeCourse (state initialWorld) = None
   \<and> handleSendMessage ''hi'' ''u1'' ''m1'' [''Hel''] None initialWorld = initialWorld
   \<and> list_all isWhiteSpace (topicInput (setTopicInput ''  '' initialWorld))
   \<and> handleGenerateCurriculum (Inr exampleCourse) ''g1'' (setTopicInput ''  '' initialWorld)
       = setTopicInput ''  '' initialWorld"
proof -
  have none: "activeCourse (state initialWorld) = None"
    by (simp add: activeCourse_def initialWorld_def initialState_def)
  have blank: "\<forall>ch \<in> set (topicInput (setTopicInput ''  '' initialWorld)). isWhiteSpace ch"
    by (simp add: setTopicInput_def isWhiteSpace_def)
  from guards_leave_world_unchanged [of initialWorld "''hi''" "''u1''" "''m1''" "[''Hel'']"
      None] none
    guards_leave_world_unchanged [of "setTopicInput ''  '' initialWorld" _ _ _ _ _
      "Inr exampleCourse" "''g1''"] blank
  show ?thesis by (simp add: list_all_iff)
qed

section \<open>Errors of the three service calls\<close>

text \<open>
  When the curriculum generation or the quiz generation throws, the handler logs the
  error and raises one alert, and does nothing more to the outside.
\<close>

lemma sibling_errors_alert:
  "(trim (topicInput w) \<noteq> [] \<longrightarrow>
      effects (handleGenerateCurriculum (Inl e) gid w) =
        effects w @
          [Call (GenerateCourseCurriculum (topicInput w)), ConsoleError e,
           Alert ''Failed to generate curriculum. Please try again.''])
   \<and> (activeCourse (state w) = Some c \<and> js_index (modules c) moduleIndex = Some m \<longrightarrow>
      effects (handleTakeQuiz moduleIndex (Inl e) w) =
        effects w @
          [Call (GenerateQuizForModule (module_title m) (topic c)), ConsoleError e,
           Alert ''Could not generate quiz. Try again.''])"
  by (simp add: handleGenerateCurriculum_def handleGenerateCurriculum_catch_def
      handleGenerateCurriculum_begin_def handleTakeQuiz_def handleTakeQuiz_catch_def
      handleTakeQuiz_call_def prim_defs Let_def)

text \<open>
  The chat handler raises no alert, whatever the stream does.
\<close>

lemma chat_never_alerts:
  "alerts (handleSendMessage msgText uid modelMsgId chunks thrown w) = alerts w"
proof (cases "activeLesson (state w)")
  case None
  then show ?thesis
    by (simp add: handleSendMessage_def split: option.splits)
next
  case (Some l)
  then obtain c m where cm: "activeCourse (state w) = Some c" "activeModule (state w) = Some m"
    by (auto simp: activeLesson_def activeModule_def split: option.splits)
  have "effects (handleSendMessage msgText uid modelMsgId chunks thrown w) =
      effects w @
        Call (StreamChatResponse
                (map (\<lambda>msg. (role msg, content msg)) (chatHistory (state w)))
                (contextAwarePrompt c m l msgText))
        # (case thrown of None \<Rightarrow> [] | Some err \<Rightarrow> [ConsoleError err])"
    by (simp add: handleSendMessage_run [OF cm Some] effects_finally effects_streamChunks
        begin_effects)
  then show ?thesis
    by (cases thrown) (simp_all add: alerts_def)
qed

text \<open>
  C3. An error thrown by any of the three service calls should surface as an alert. The
  catch blocks of handleGenerateCurriculum and handleTakeQuiz raise one; the catch block
  of handleSendMessage does not. In the sample session the chat stream throws: the error
  is logged to the console and no alert is raised.
\<close>

theorem chat_error_no_alert:
  "alerts (handleSendMessage ''hi'' ''u1'' ''m1'' [] (Some (ServiceError ''boom'')) exampleWorld) = []
   \<and> last (effects (handleSendMessage ''hi'' ''u1'' ''m1'' [] (Some (ServiceError ''boom''))
        exampleWorld)) = ConsoleError (ServiceError ''boom'')"
  unfolding handleSendMessage_run [OF example_active]
  by (simp add: streamChunks_eq handleSendMessage_finally_def handleSendMessage_begin_def
      prim_defs Let_def alerts_def exampleWorld_eq)

section \<open>The view\<close>

text \<open>
  C9. No handler assigns 'quiz' to currentView: in every state reachable from the initial
  state, with the handlers interleaved as their awaits allow, currentView is 'landing' or
  'course'. A quiz is shown through the activeQuiz field.
\<close>

theorem view_never_quiz:
  assumes "reachable w ts"
  shows "currentView (state w) = VLanding \<or> currentView (state w) = VCourse"
  using assms
proof (induction rule: reachable.induct)
  case r_init
  show ?case by (simp add: initialWorld_def initialState_def)
next
  case (r_topic w ts t)
  then show ?case by (simp add: setTopicInput_def)
next
  case (r_home w ts)
  show ?case by (simp add: onHomeClick_def prim_defs)
next
  case (r_close w ts)
  then show ?case by (simp add: onClose_def prim_defs)
qed (simp_all add: view_simps prim_defs)

text \<open>
  An instance of C9: after a quiz was generated for the sample course, the quiz is in
  activeQuiz and the view is still the course view.
\<close>

theorem view_never_quiz_witness:
  "reachable (handleTakeQuiz 0 (Inr exampleQuiz) exampleWorld) []
   \<and> currentView (state (handleTakeQuiz 0 (Inr exampleQuiz) exampleWorld)) \<noteq> VQuiz
   \<and> activeQuiz (state (handleTakeQuiz 0 (Inr exampleQuiz) exampleWorld)) = Some exampleQuiz"
proof -
  have r: "reachable (handleTakeQuiz 0 (Inr exampleQuiz) exampleWorld) []"
    by (intro reachable_handleTakeQuiz reachable_exampleWorld)
  have q: "activeQuiz (state (handleTakeQuiz 0 (Inr exampleQuiz) exampleWorld)) = Some exampleQuiz"
    using example_active(1) example_indices(1)
    by (simp add: handleTakeQuiz_def handleTakeQuiz_resolved_def handleTakeQuiz_call_def
        prim_defs)
  from view_never_quiz [OF r] r q show ?thesis by auto
qed

end
